theory Spec2Isabelle
  imports Complex_Main "HOL-Library.AList"
begin

section \<open>pypolestar: the cache and data-access layer of \<open>PolestarApi\<close>\<close>

text \<open>
  A shallow embedding of \<^verbatim>\<open>src/pypolestar/polestar_api.py\<close>. Python values that come out
  of a JSON body are a datatype, exceptions are the left side of a sum, the attributes of
  the \<^verbatim>\<open>PolestarApi\<close> instance are a record that every method takes and returns, and
  the two collaborators the class only calls (the aiohttp session and \<^verbatim>\<open>PolestarAuth\<close>)
  are a script of outcomes together with the log of the calls made.
\<close>

subsection \<open>Python values and exceptions\<close>

text \<open>
  What \<^verbatim>\<open>result.json()\<close> can return: \<^verbatim>\<open>None\<close>, a bool, an int, a float, a str, a list
  or a dict with string keys. A dict is an association list read with \<open>map_of\<close>. A float
  is its real value: the code only ever tests it for being zero.
\<close>

datatype json =
    JNull
  | JBool bool
  | JInt int
  | JFloat real
  | JStr string
  | JList "json list"
  | JObj "(string \<times> json) list"

text \<open>
  The exceptions the modelled statements raise. \<open>ExternalError\<close> stands for whatever the
  transport or the authentication provider raises.
\<close>

datatype error =
    AttributeError
  | KeyError
  | TypeError
  | IndexError
  | OverflowError
  | PolestarApiException
  | ExternalError

text \<open>Python truthiness (\<^verbatim>\<open>if x:\<close>).\<close>

fun truthy :: "json \<Rightarrow> bool" where
  "truthy JNull = False"
| "truthy (JBool b) = b"
| "truthy (JInt i) = (i \<noteq> 0)"
| "truthy (JFloat r) = (r \<noteq> 0)"
| "truthy (JStr s) = (s \<noteq> [])"
| "truthy (JList xs) = (xs \<noteq> [])"
| "truthy (JObj kvs) = (kvs \<noteq> [])"

text \<open>\<^verbatim>\<open>x.get(key)\<close>: only a dict has the method; a missing key reads as \<^verbatim>\<open>None\<close>.\<close>

fun dict_get :: "json \<Rightarrow> string \<Rightarrow> error + json" where
  "dict_get (JObj kvs) key = Inr (case map_of kvs key of None \<Rightarrow> JNull | Some v \<Rightarrow> v)"
| "dict_get _ key = Inl AttributeError"

text \<open>
  \<^verbatim>\<open>x[key]\<close> with a string key: a dict raises KeyError on a missing key; a list and a
  str want an integer index, and \<^verbatim>\<open>None\<close>, bools and numbers are not subscriptable
  (TypeError in each case).
\<close>

fun subscript :: "json \<Rightarrow> string \<Rightarrow> error + json" where
  "subscript (JObj kvs) key = (case map_of kvs key of None \<Rightarrow> Inl KeyError | Some v \<Rightarrow> Inr v)"
| "subscript _ key = Inl TypeError"

text \<open>\<^verbatim>\<open>x[0]\<close>: a dict of string keys has no key \<^verbatim>\<open>0\<close>.\<close>

fun item0 :: "json \<Rightarrow> error + json" where
  "item0 (JList xs) = (case xs of [] \<Rightarrow> Inl IndexError | x # _ \<Rightarrow> Inr x)"
| "item0 (JStr s) = (case s of [] \<Rightarrow> Inl IndexError | c # _ \<Rightarrow> Inr (JStr [c]))"
| "item0 (JObj kvs) = Inl KeyError"
| "item0 _ = Inl TypeError"

text \<open>\<^verbatim>\<open>len(x)\<close>.\<close>

fun py_len :: "json \<Rightarrow> error + nat" where
  "py_len (JList xs) = Inr (length xs)"
| "py_len (JStr s) = Inr (length s)"
| "py_len (JObj kvs) = Inr (length kvs)"
| "py_len _ = Inl TypeError"

text \<open>
  \<^verbatim>\<open>x[:8]\<close> and \<^verbatim>\<open>x[-4:]\<close>. Slicing a dict raises (TypeError, unhashable slice, before
  Python 3.12; KeyError since): the model takes TypeError.
\<close>

fun slice_first8 :: "json \<Rightarrow> error + json" where
  "slice_first8 (JStr s) = Inr (JStr (take 8 s))"
| "slice_first8 (JList xs) = Inr (JList (take 8 xs))"
| "slice_first8 _ = Inl TypeError"

fun slice_last4 :: "json \<Rightarrow> error + json" where
  "slice_last4 (JStr s) = Inr (JStr (drop (length s - 4) s))"
| "slice_last4 (JList xs) = Inr (JList (drop (length xs - 4) xs))"
| "slice_last4 _ = Inl TypeError"

text \<open>\<^verbatim>\<open>s.split(c)\<close> for a one-character separator: always at least one piece.\<close>

fun split :: "char \<Rightarrow> string \<Rightarrow> string list" where
  "split c [] = [[]]"
| "split c (x # xs) =
     (if x = c then [] # split c xs
      else (case split c xs of [] \<Rightarrow> [[x]] | w # ws \<Rightarrow> (x # w) # ws))"

subsection \<open>Field resolution: \<^verbatim>\<open>_get_field_name_value\<close>\<close>

text \<open>
  The loop of lines 65-70 over the split path:
  \<^verbatim>\<open>
  for key in field_name:
      if data.get(key):
          data = data[key]
      else:
          return None
  return data
  \<close>
\<close>

fun walk :: "string list \<Rightarrow> json \<Rightarrow> error + json" where
  "walk [] doc = Inr doc"
| "walk (key # keys) doc =
     (case dict_get doc key of
        Inl err \<Rightarrow> Inl err
      | Inr v \<Rightarrow>
          if truthy v then
            (case subscript doc key of Inl err \<Rightarrow> Inl err | Inr doc' \<Rightarrow> walk keys doc')
          else Inr JNull)"

text \<open>
  \<^verbatim>\<open>_get_field_name_value(field_name, data)\<close>; \<open>None\<close> is the Python \<^verbatim>\<open>None\<close> passed as
  \<^verbatim>\<open>field_name\<close>. A name with a slash is split into a list and walked; a name without one
  indexes the document directly.
\<close>

definition get_field_name_value :: "string option \<Rightarrow> json \<Rightarrow> error + json" where
  "get_field_name_value field_name doc =
     (case field_name of
        None \<Rightarrow> Inr JNull
      | Some fname \<Rightarrow>
          if doc = JNull then Inr JNull
          else if truthy doc then
            (if CHR ''/'' \<in> set fname then walk (split CHR ''/'' fname) doc
             else subscript doc fname)
          else Inr JNull)"

subsection \<open>The instance and its cache\<close>

text \<open>
  A cache entry is the dict \<^verbatim>\<open>{'data': ..., 'timestamp': ...}\<close>. An instant is a
  \<^verbatim>\<open>datetime\<close>, counted in microseconds (its resolution) from \<^verbatim>\<open>datetime.min\<close>,
  0001-01-01 00:00:00.
\<close>

record cache_entry =
  data :: json
  timestamp :: int

text \<open>
  The attributes of a \<^verbatim>\<open>PolestarApi\<close> instance. \<^verbatim>\<open>username\<close> and \<^verbatim>\<open>password\<close> are
  assigned by \<^verbatim>\<open>__init__\<close>. The others are assigned only by the statements modelled
  below (or from outside), so each is optional: \<open>None\<close> is an attribute the instance does
  not have, and reading it raises AttributeError. \<open>ident\<close> is \<^verbatim>\<open>self.id\<close>.
\<close>

record api =
  username :: string
  password :: string
  cache_data :: "(string \<times> cache_entry) list option"
  updating :: "bool option"
  vin :: "json option"
  ident :: "json option"
  name :: "json option"

text \<open>
  \<^verbatim>\<open>__init__(self, session, username, password)\<close>, lines 23-27: four assignments, to
  \<^verbatim>\<open>username\<close>, \<^verbatim>\<open>password\<close>, \<^verbatim>\<open>_session\<close> and \<^verbatim>\<open>auth\<close> (the last two are the
  collaborators of the environment below). Nothing else is assigned.
\<close>

definition init_api :: "string \<Rightarrow> string \<Rightarrow> api" where
  "init_api u p =
     \<lparr>username = u, password = p, cache_data = None, updating = None,
      vin = None, ident = None, name = None\<rparr>"

text \<open>
  The statement \<^verbatim>\<open>self.cache_data[q] = {'data': d, 'timestamp': datetime.now()}\<close> of lines
  39, 95 and 101, with \<open>now\<close> the clock's reading.
\<close>

definition cache_put :: "api \<Rightarrow> string \<Rightarrow> json \<Rightarrow> int \<Rightarrow> error + api" where
  "cache_put s q d now =
     (case cache_data s of
        None \<Rightarrow> Inl AttributeError
      | Some c \<Rightarrow>
          Inr (s\<lparr>cache_data := Some (AList.update q \<lparr>data = d, timestamp = now\<rparr> c)\<rparr>))"

text \<open>
  \<^verbatim>\<open>timedelta(seconds=n)\<close> in microseconds. A \<^verbatim>\<open>timedelta\<close> holds at most 999999999
  days in either direction: the constructor raises OverflowError when the number of whole
  days (\<^verbatim>\<open>n // 86400\<close>) is beyond that. \<^verbatim>\<open>CACHE_TIME\<close> is imported from \<^verbatim>\<open>.const\<close>,
  which is not part of the source at hand: it is a parameter, a whole number of seconds.
\<close>

definition timedelta_seconds :: "int \<Rightarrow> error + int" where
  "timedelta_seconds n =
     (if - 999999999 \<le> n div 86400 \<and> n div 86400 \<le> 999999999 then Inr (n * 1000000)
      else Inl OverflowError)"

text \<open>
  \<^verbatim>\<open>datetime.max\<close>, 9999-12-31 23:59:59.999999: the last microsecond of day 3652059
  (\<^verbatim>\<open>date.max.toordinal()\<close>).
\<close>

definition datetime_max :: int where
  "datetime_max = 3652059 * 86400000000 - 1"

text \<open>
  \<^verbatim>\<open>t + td\<close> for a \<^verbatim>\<open>datetime\<close> and a \<^verbatim>\<open>timedelta\<close>: OverflowError when the sum is
  before \<^verbatim>\<open>datetime.min\<close> or after \<^verbatim>\<open>datetime.max\<close>.
\<close>

definition datetime_add :: "int \<Rightarrow> int \<Rightarrow> error + int" where
  "datetime_add t td =
     (if 0 \<le> t + td \<and> t + td \<le> datetime_max then Inr (t + td) else Inl OverflowError)"

text \<open>
  \<^verbatim>\<open>get_cache_data(query, field_name, skip_cache)\<close>, lines 74-90, at clock reading
  \<open>now\<close>. An entry is a dict of two keys, so \<^verbatim>\<open>self.cache_data.get(query)\<close> is truthy
  exactly when the key is there. In line 80 the left operand of the comparison is
  evaluated first: the \<^verbatim>\<open>timedelta\<close> is built, then added to the timestamp, and either
  step can raise OverflowError before the clock is read.
\<close>

definition get_cache_data ::
  "int \<Rightarrow> api \<Rightarrow> string option \<Rightarrow> string option \<Rightarrow> bool \<Rightarrow> int \<Rightarrow> error + json" where
  "get_cache_data CACHE_TIME s q field_name skip_cache now =
     (case q of
        None \<Rightarrow> Inr JNull
      | Some qn \<Rightarrow>
          (case cache_data s of
             None \<Rightarrow> Inl AttributeError
           | Some c \<Rightarrow>
               (case (if c \<noteq> [] then map_of c qn else None) of
                  None \<Rightarrow> Inr JNull
                | Some entry \<Rightarrow>
                    if \<not> skip_cache then
                      (case timedelta_seconds CACHE_TIME of
                         Inl err \<Rightarrow> Inl err
                       | Inr ttl \<Rightarrow>
                           (case datetime_add (timestamp entry) ttl of
                              Inl err \<Rightarrow> Inl err
                            | Inr expiry \<Rightarrow>
                                if expiry > now then
                                  (if data entry = JNull then Inr JNull
                                   else get_field_name_value field_name (data entry))
                                else Inr JNull))
                    else
                      (if data entry = JNull then Inr JNull
                       else get_field_name_value field_name (data entry)))))"

text \<open>
  \<^verbatim>\<open>get_latest_data(query, field_name)\<close>, lines 47-52. The cache is indexed with
  \<^verbatim>\<open>self.cache_data[query]\<close>, which raises KeyError on a missing key (\<^verbatim>\<open>None\<close> is never
  a key); when the condition is false the function falls off its end and returns
  \<^verbatim>\<open>None\<close>.
\<close>

definition get_latest_data :: "api \<Rightarrow> string option \<Rightarrow> string option \<Rightarrow> error + json" where
  "get_latest_data s q field_name =
     (case cache_data s of
        None \<Rightarrow> Inl AttributeError
      | Some c \<Rightarrow>
          if c \<noteq> [] then
            (case (case q of None \<Rightarrow> None | Some qn \<Rightarrow> map_of c qn) of
               None \<Rightarrow> Inl KeyError
             | Some entry \<Rightarrow>
                 if data entry = JNull then Inr (JBool False)
                 else get_field_name_value field_name (data entry))
          else Inr JNull)"

subsection \<open>The collaborators: transport and authentication\<close>

text \<open>
  The request parameters, a dict of three strings.
\<close>

record params =
  query :: string
  operationName :: string
  variables :: string

text \<open>
  The class calls three things it does not define: \<^verbatim>\<open>self.auth.get_token()\<close>,
  \<^verbatim>\<open>self.auth.headers()\<close>, and \<^verbatim>\<open>self._session.get(url, params, headers)\<close> followed by
  \<^verbatim>\<open>result.json()\<close>. Each either raises or returns a value. The environment holds the
  outcomes still to come, in the order of the calls, and the log of the calls made; when
  no outcome is left the call raises.
\<close>

datatype call = AuthGetToken | AuthHeaders | SessionGet params

record env =
  script :: "(error + json) list"
  calls :: "call list"

definition external :: "call \<Rightarrow> env \<Rightarrow> (error + json) \<times> env" where
  "external c e =
     (case script e of
        [] \<Rightarrow> (Inl ExternalError, e\<lparr>calls := calls e @ [c]\<rparr>)
      | out # rest \<Rightarrow> (out, e\<lparr>script := rest, calls := calls e @ [c]\<rparr>))"

text \<open>
  \<^verbatim>\<open>self.get_token()\<close> of line 121. The class defines the methods \<^verbatim>\<open>__init__\<close>,
  \<^verbatim>\<open>init\<close>, \<^verbatim>\<open>get_latest_data\<close>, \<^verbatim>\<open>_get_field_name_value\<close>, \<^verbatim>\<open>get_cache_data\<close>,
  \<^verbatim>\<open>getOdometerData\<close>, \<^verbatim>\<open>getBatteryData\<close>, \<^verbatim>\<open>get_ev_data\<close>, \<^verbatim>\<open>get_graph_ql\<close>,
  \<^verbatim>\<open>get_odo_data\<close>, \<^verbatim>\<open>get_battery_data\<close>, \<^verbatim>\<open>get_vehicle_data\<close> and \<^verbatim>\<open>__version__\<close>,
  has no base class, and no statement assigns an attribute \<^verbatim>\<open>get_token\<close>: the method
  of that name belongs to \<^verbatim>\<open>self.auth\<close> (line 30). The attribute lookup raises before
  anything is called.
\<close>

definition self_get_token :: "env \<Rightarrow> (error + json) \<times> env" where
  "self_get_token e = (Inl AttributeError, e)"

text \<open>\<^verbatim>\<open>resultData['errors'][0]['message']\<close>.\<close>

definition first_error_message :: "json \<Rightarrow> error + json" where
  "first_error_message resultData =
     (case subscript resultData ''errors'' of
        Inl err \<Rightarrow> Inl err
      | Inr errs \<Rightarrow>
          (case item0 errs of
             Inl err \<Rightarrow> Inl err
           | Inr first \<Rightarrow> subscript first ''message''))"

text \<open>
  \<^verbatim>\<open>get_graph_ql(params)\<close>, lines 112-127. The two logging calls have no effect on the
  result or on the instance and are left out.
\<close>

function get_graph_ql :: "params \<Rightarrow> env \<Rightarrow> (error + json) \<times> env" where
  "get_graph_ql ps e =
     (case external AuthHeaders e of
        (Inl err, e1) \<Rightarrow> (Inl err, e1)
      | (Inr headers, e1) \<Rightarrow>
          (case external (SessionGet ps) e1 of
             (Inl err, e2) \<Rightarrow> (Inl err, e2)
           | (Inr resultData, e2) \<Rightarrow>
               (case dict_get resultData ''errors'' of
                  Inl err \<Rightarrow> (Inl err, e2)
                | Inr errs \<Rightarrow>
                    if truthy errs then
                      (case first_error_message resultData of
                         Inl err \<Rightarrow> (Inl err, e2)
                       | Inr msg \<Rightarrow>
                           if msg = JStr ''User not authenticated'' then
                             (case self_get_token e2 of
                                (Inl err, e3) \<Rightarrow> (Inl err, e3)
                              | (Inr tok, e3) \<Rightarrow> get_graph_ql ps e3)
                           else (Inr resultData, e2))
                    else (Inr resultData, e2))))"
  by pat_completeness auto

termination
proof (relation "measure (\<lambda>(ps, e). length (script e))", goal_cases)
  case 1
  show ?case by simp
next
  case (2 ps e x1 e1 headers x2 e2 resultData errs msg x3 e3 tok)
  from 2 have "external AuthHeaders e = (Inr headers, e1)" by simp
  then have "length (script e1) < length (script e)"
    by (auto simp: external_def split: list.splits)
  moreover from 2 have "external (SessionGet ps) e1 = (Inr resultData, e2)" by simp
  then have "length (script e2) < length (script e1)"
    by (auto simp: external_def split: list.splits)
  moreover from 2 have "self_get_token e2 = (x3, e3)" by simp
  then have "e3 = e2"
    by (simp add: self_get_token_def)
  ultimately show ?case by simp
qed

text \<open>
  The three fixed queries, lines 129-154. The odometer and battery queries build
  \<^verbatim>\<open>"{\"vin\":\"" + self.vin + "\"}"\<close> before the request is made: reading \<^verbatim>\<open>self.vin\<close>
  raises AttributeError when \<^verbatim>\<open>init\<close> has not assigned it, and the concatenation raises
  TypeError when it is not a str.
\<close>

definition vin_variables :: "api \<Rightarrow> error + string" where
  "vin_variables s =
     (case vin s of
        None \<Rightarrow> Inl AttributeError
      | Some (JStr v) \<Rightarrow>
          Inr (''{'' @ [CHR 0x22] @ ''vin'' @ [CHR 0x22] @ '':'' @ [CHR 0x22] @ v @ [CHR 0x22] @ ''}'')
      | Some _ \<Rightarrow> Inl TypeError)"

definition odo_query :: string where
  "odo_query = ''query GetOdometerData($vin: String!) { getOdometerData(vin: $vin) { averageSpeedKmPerHour eventUpdatedTimestamp { iso unix __typename } odometerMeters tripMeterAutomaticKm tripMeterManualKm __typename }}''"

definition battery_query :: string where
  "battery_query = ''query GetBatteryData($vin: String!) {  getBatteryData(vin: $vin) {    averageEnergyConsumptionKwhPer100Km    batteryChargeLevelPercentage    chargerConnectionStatus    chargingCurrentAmps    chargingPowerWatts    chargingStatus    estimatedChargingTimeMinutesToTargetDistance    estimatedChargingTimeToFullMinutes    estimatedDistanceToEmptyKm    estimatedDistanceToEmptyMiles    eventUpdatedTimestamp {      iso      unix      __typename    }    __typename  }}''"

definition cars_query :: string where
  "cars_query = ''query getCars {  getConsumerCarsV2 {    vin    internalVehicleIdentifier    modelYear    content {      model {        code        name        __typename      }      images {        studio {          url          angles          __typename        }        __typename      }      __typename    }    hasPerformancePackage    registrationNo    deliveryDate    currentPlannedDeliveryDate    __typename  }}''"

definition get_odo_data :: "api \<Rightarrow> env \<Rightarrow> (error + json) \<times> env" where
  "get_odo_data s e =
     (case vin_variables s of
        Inl err \<Rightarrow> (Inl err, e)
      | Inr vars \<Rightarrow>
          get_graph_ql
            \<lparr>query = odo_query, operationName = ''GetOdometerData'', variables = vars\<rparr> e)"

definition get_battery_data :: "api \<Rightarrow> env \<Rightarrow> (error + json) \<times> env" where
  "get_battery_data s e =
     (case vin_variables s of
        Inl err \<Rightarrow> (Inl err, e)
      | Inr vars \<Rightarrow>
          get_graph_ql
            \<lparr>query = battery_query, operationName = ''GetBatteryData'', variables = vars\<rparr> e)"

definition get_vehicle_data :: "env \<Rightarrow> (error + json) \<times> env" where
  "get_vehicle_data e =
     get_graph_ql \<lparr>query = cars_query, operationName = ''getCars'', variables = ''{}''\<rparr> e"

text \<open>
  \<^verbatim>\<open>getOdometerData\<close> and \<^verbatim>\<open>getBatteryData\<close>, lines 92-102. The right-hand side of the
  assignment is evaluated before \<^verbatim>\<open>self.cache_data\<close> is read; \<open>now\<close> is the clock's
  reading there. An exception leaves the instance as it was.
\<close>

definition getOdometerData :: "api \<Rightarrow> int \<Rightarrow> env \<Rightarrow> (error + unit) \<times> api \<times> env" where
  "getOdometerData s now e =
     (case get_odo_data s e of
        (Inl err, e') \<Rightarrow> (Inl err, s, e')
      | (Inr result, e') \<Rightarrow>
          (case subscript result ''data'' of
             Inl err \<Rightarrow> (Inl err, s, e')
           | Inr d \<Rightarrow>
               (case subscript d ''getOdometerData'' of
                  Inl err \<Rightarrow> (Inl err, s, e')
                | Inr v \<Rightarrow>
                    (case cache_put s ''getOdometerData'' v now of
                       Inl err \<Rightarrow> (Inl err, s, e')
                     | Inr s' \<Rightarrow> (Inr (), s', e')))))"

definition getBatteryData :: "api \<Rightarrow> int \<Rightarrow> env \<Rightarrow> (error + unit) \<times> api \<times> env" where
  "getBatteryData s now e =
     (case get_battery_data s e of
        (Inl err, e') \<Rightarrow> (Inl err, s, e')
      | (Inr result, e') \<Rightarrow>
          (case subscript result ''data'' of
             Inl err \<Rightarrow> (Inl err, s, e')
           | Inr d \<Rightarrow>
               (case subscript d ''getBatteryData'' of
                  Inl err \<Rightarrow> (Inl err, s, e')
                | Inr v \<Rightarrow>
                    (case cache_put s ''getBatteryData'' v now of
                       Inl err \<Rightarrow> (Inl err, s, e')
                     | Inr s' \<Rightarrow> (Inr (), s', e')))))"

text \<open>
  \<^verbatim>\<open>get_ev_data\<close>, lines 104-110; \<open>t1\<close> and \<open>t2\<close> are the clock's readings in the two
  refreshes. There is no \<^verbatim>\<open>try\<close>: an exception of either refresh leaves the function
  at once.
\<close>

definition get_ev_data :: "api \<Rightarrow> int \<Rightarrow> int \<Rightarrow> env \<Rightarrow> (error + unit) \<times> api \<times> env" where
  "get_ev_data s t1 t2 e =
     (case updating s of
        None \<Rightarrow> (Inl AttributeError, s, e)
      | Some u \<Rightarrow>
          if u then (Inr (), s, e)
          else
            (case getOdometerData (s\<lparr>updating := Some True\<rparr>) t1 e of
               (Inl err, s1, e1) \<Rightarrow> (Inl err, s1, e1)
             | (Inr _, s1, e1) \<Rightarrow>
                 (case getBatteryData s1 t2 e1 of
                    (Inl err, s2, e2) \<Rightarrow> (Inl err, s2, e2)
                  | (Inr _, s2, e2) \<Rightarrow> (Inr (), s2\<lparr>updating := Some False\<rparr>, e2))))"

text \<open>
  \<^verbatim>\<open>init\<close>, lines 29-45, with \<open>now\<close> the clock's reading of line 40. The assignments
  happen one after the other, so an exception keeps those already made.
\<close>

definition init :: "api \<Rightarrow> int \<Rightarrow> env \<Rightarrow> (error + unit) \<times> api \<times> env" where
  "init s now e =
     (case external AuthGetToken e of
        (Inl err, e1) \<Rightarrow> (Inl err, s, e1)
      | (Inr tok, e1) \<Rightarrow>
     (case get_vehicle_data e1 of
        (Inl err, e2) \<Rightarrow> (Inl err, s, e2)
      | (Inr result, e2) \<Rightarrow>
     (case subscript result ''data'' of
        Inl err \<Rightarrow> (Inl err, s, e2)
      | Inr d \<Rightarrow>
     (case subscript d ''getConsumerCarsV2'' of
        Inl err \<Rightarrow> (Inl err, s, e2)
      | Inr cars \<Rightarrow>
          if cars = JNull then (Inl PolestarApiException, s, e2)
          else
     (case py_len cars of
        Inl err \<Rightarrow> (Inl err, s, e2)
      | Inr n \<Rightarrow>
          if n = 0 then (Inl PolestarApiException, s, e2)
          else
     (case item0 cars of
        Inl err \<Rightarrow> (Inl err, s, e2)
      | Inr car \<Rightarrow>
     (case cache_put s ''getConsumerCarsV2'' car now of
        Inl err \<Rightarrow> (Inl err, s, e2)
      | Inr s1 \<Rightarrow>
     (case subscript car ''vin'' of
        Inl err \<Rightarrow> (Inl err, s1, e2)
      | Inr v \<Rightarrow>
     (case slice_first8 v of
        Inl err \<Rightarrow> (Inl err, s1\<lparr>vin := Some v\<rparr>, e2)
      | Inr first8 \<Rightarrow>
     (case slice_last4 v of
        Inl err \<Rightarrow> (Inl err, s1\<lparr>vin := Some v, ident := Some first8\<rparr>, e2)
      | Inr (JStr last4) \<Rightarrow>
          (Inr (),
           s1\<lparr>vin := Some v, ident := Some first8,
              name := Some (JStr (''Polestar '' @ last4))\<rparr>, e2)
      | Inr _ \<Rightarrow>
          (Inl TypeError, s1\<lparr>vin := Some v, ident := Some first8\<rparr>, e2)))))))))))"

section \<open>Properties\<close>

subsection \<open>Auxiliary facts\<close>

lemma get_field_name_value_null: "get_field_name_value f JNull = Inr JNull"
  by (simp add: get_field_name_value_def split: option.splits)

lemma walk_append:
  "walk xs doc = Inr d \<Longrightarrow> d \<noteq> JNull \<Longrightarrow> walk (xs @ ys) doc = walk ys d"
proof (induction xs arbitrary: doc)
  case Nil
  then show ?case by simp
next
  case (Cons k ks)
  then show ?case
    by (auto split: sum.splits if_splits)
qed

lemma walk_falsy_step:
  assumes "walk pre doc = Inr cur" and "dict_get cur key = Inr v" and "\<not> truthy v"
  shows "walk (pre @ key # post) doc = Inr JNull"
proof -
  from assms(2) have "cur \<noteq> JNull" by (cases cur) auto
  with assms(1) have "walk (pre @ key # post) doc = walk (key # post) cur"
    by (rule walk_append)
  with assms(2,3) show ?thesis by simp
qed

text \<open>
  Outside the range of \<^verbatim>\<open>timedelta\<close> or of \<^verbatim>\<open>datetime\<close> a fresh-only read of an
  existing entry raises, whatever the clock says.
\<close>

lemma get_cache_data_overflow:
  assumes "cache_data s = Some c" and "map_of c q = Some entry"
    and "timedelta_seconds CACHE_TIME = Inl err \<or>
         (\<exists>ttl. timedelta_seconds CACHE_TIME = Inr ttl \<and>
                datetime_add (timestamp entry) ttl = Inl err)"
  shows "get_cache_data CACHE_TIME s (Some q) f False now = Inl err"
proof -
  from assms(2) have "c \<noteq> []" by auto
  with assms show ?thesis
    by (auto simp: get_cache_data_def)
qed

lemma cache_put_updating: "cache_put s q d now = Inr s' \<Longrightarrow> updating s' = updating s"
  by (auto simp: cache_put_def split: option.splits)

lemma getOdometerData_updating:
  "getOdometerData s now e = (r, s', e') \<Longrightarrow> updating s' = updating s"
  by (auto simp: getOdometerData_def split: prod.splits sum.splits dest: cache_put_updating)

lemma getBatteryData_updating:
  "getBatteryData s now e = (r, s', e') \<Longrightarrow> updating s' = updating s"
  by (auto simp: getBatteryData_def split: prod.splits sum.splits dest: cache_put_updating)

text \<open>A refresh that returns has written its entry with the cache write of \<open>cache_put\<close>.\<close>

lemma getOdometerData_puts:
  "getOdometerData s now e = (Inr u, s', e') \<Longrightarrow>
     \<exists>d. cache_put s ''getOdometerData'' d now = Inr s'"
  by (auto simp: getOdometerData_def split: prod.splits sum.splits)

lemma getBatteryData_puts:
  "getBatteryData s now e = (Inr u, s', e') \<Longrightarrow>
     \<exists>d. cache_put s ''getBatteryData'' d now = Inr s'"
  by (auto simp: getBatteryData_def split: prod.splits sum.splits)

subsection \<open>The query executor\<close>

text \<open>
  Claim C1 says that a response whose first error message is exactly
  \<^verbatim>\<open>User not authenticated\<close> leads to one token refresh, one retried request and the
  retried result. The code does not get that far: on such a response (after the headers
  call and the one request) \<open>get_graph_ql\<close> raises AttributeError from
  \<^verbatim>\<open>self.get_token()\<close>. The log of calls ends with the headers call and the request: no
  token refresh and no second request are made, and what the script held for them is
  left unread.
\<close>

theorem get_graph_ql_auth_failure_raises:
  assumes "script e = Inr headers # Inr resultData # rest"
    and "dict_get resultData ''errors'' = Inr errs" and "truthy errs"
    and "first_error_message resultData = Inr (JStr ''User not authenticated'')"
  shows "get_graph_ql ps e =
           (Inl AttributeError,
            e\<lparr>script := rest, calls := calls e @ [AuthHeaders, SessionGet ps]\<rparr>)"
  using assms by (simp add: external_def self_get_token_def)

theorem get_graph_ql_auth_failure_raises_witness:
  "get_graph_ql \<lparr>query = ''query getCars'', operationName = ''getCars'', variables = ''{}''\<rparr>
     \<lparr>script =
        [Inr (JObj []),
         Inr (JObj [(''errors'', JList [JObj [(''message'', JStr ''User not authenticated'')]])]),
         Inr JNull,
         Inr (JObj []),
         Inr (JObj [(''data'', JObj [(''getConsumerCarsV2'', JList [])])])],
      calls = []\<rparr>
   = (Inl AttributeError,
      \<lparr>script =
         [Inr JNull,
          Inr (JObj []),
          Inr (JObj [(''data'', JObj [(''getConsumerCarsV2'', JList [])])])],
       calls =
         [AuthHeaders,
          SessionGet \<lparr>query = ''query getCars'', operationName = ''getCars'',
                      variables = ''{}''\<rparr>]\<rparr>)"
  using get_graph_ql_auth_failure_raises
    [of "\<lparr>script =
            [Inr (JObj []),
             Inr (JObj [(''errors'', JList [JObj [(''message'', JStr ''User not authenticated'')]])]),
             Inr JNull,
             Inr (JObj []),
             Inr (JObj [(''data'', JObj [(''getConsumerCarsV2'', JList [])])])],
          calls = []\<rparr>"
        "JObj []"
        "JObj [(''errors'', JList [JObj [(''message'', JStr ''User not authenticated'')]])]"
        "[Inr JNull, Inr (JObj []),
          Inr (JObj [(''data'', JObj [(''getConsumerCarsV2'', JList [])])])]"
        "JList [JObj [(''message'', JStr ''User not authenticated'')]]"
        "\<lparr>query = ''query getCars'', operationName = ''getCars'', variables = ''{}''\<rparr>"]
  by (simp add: first_error_message_def)

subsection \<open>The cache store\<close>

text \<open>
  Claim C2: after the cache write of \<open>d\<close> under \<open>q\<close> at time \<open>t0\<close>, a read with
  \<^verbatim>\<open>skip_cache\<close> false at a time \<open>t\<close> from \<open>t0\<close> on gives what field resolution gives on
  \<open>d\<close> while \<open>t < t0 + TTL\<close>, and \<^verbatim>\<open>None\<close> from \<open>t0 + TTL\<close> on. The TTL is a
  \<^verbatim>\<open>timedelta\<close> and the expiry \<open>t0 + TTL\<close> a \<^verbatim>\<open>datetime\<close>: both are within the range of
  their types. The read returns a value only: it leaves the entry and its timestamp as
  they are, so the expiry does not slide.
\<close>

theorem cache_fresh_read_after_put:
  assumes "cache_put s q d t0 = Inr s'" and "t0 \<le> t"
    and "timedelta_seconds CACHE_TIME = Inr ttl"
    and "datetime_add t0 ttl = Inr expiry"
  shows "get_cache_data CACHE_TIME s' (Some q) f False t =
           (if t < t0 + ttl then get_field_name_value f d else Inr JNull)"
proof -
  from assms(1) obtain c where
    s': "s' = s\<lparr>cache_data := Some (AList.update q \<lparr>data = d, timestamp = t0\<rparr> c)\<rparr>"
    by (auto simp: cache_put_def split: option.splits)
  have ne: "AList.update q \<lparr>data = d, timestamp = t0\<rparr> c \<noteq> []"
    by (cases c) auto
  have look:
    "map_of (AList.update q \<lparr>data = d, timestamp = t0\<rparr> c) q = Some \<lparr>data = d, timestamp = t0\<rparr>"
    by (simp add: update_conv')
  from assms(4) have expiry: "expiry = t0 + ttl"
    by (simp add: datetime_add_def split: if_splits)
  show ?thesis
    by (simp add: get_cache_data_def s' ne look assms(3,4) expiry get_field_name_value_null)
qed

theorem cache_fresh_read_after_put_witness:
  "cache_put
     \<lparr>username = ''user'', password = ''secret'', cache_data = Some [], updating = Some False,
      vin = None, ident = None, name = None\<rparr>
     ''getBatteryData'' (JObj [(''batteryChargeLevelPercentage'', JInt 80)]) 63900000000000000
   = Inr \<lparr>username = ''user'', password = ''secret'',
          cache_data = Some [(''getBatteryData'',
            \<lparr>data = JObj [(''batteryChargeLevelPercentage'', JInt 80)],
             timestamp = 63900000000000000\<rparr>)],
          updating = Some False, vin = None, ident = None, name = None\<rparr> \<and>
   timedelta_seconds 30 = Inr 30000000 \<and>
   datetime_add 63900000000000000 30000000 = Inr 63900000030000000 \<and>
   get_cache_data 30
     \<lparr>username = ''user'', password = ''secret'',
      cache_data = Some [(''getBatteryData'',
        \<lparr>data = JObj [(''batteryChargeLevelPercentage'', JInt 80)],
         timestamp = 63900000000000000\<rparr>)],
      updating = Some False, vin = None, ident = None, name = None\<rparr>
     (Some ''getBatteryData'') (Some ''batteryChargeLevelPercentage'') False 63900000029999999
   = Inr (JInt 80) \<and>
   get_cache_data 30
     \<lparr>username = ''user'', password = ''secret'',
      cache_data = Some [(''getBatteryData'',
        \<lparr>data = JObj [(''batteryChargeLevelPercentage'', JInt 80)],
         timestamp = 63900000000000000\<rparr>)],
      updating = Some False, vin = None, ident = None, name = None\<rparr>
     (Some ''getBatteryData'') (Some ''batteryChargeLevelPercentage'') False 63900000030000000
   = Inr JNull"
proof -
  let ?s = "\<lparr>username = ''user'', password = ''secret'', cache_data = Some [],
             updating = Some False, vin = None, ident = None, name = None\<rparr>"
  let ?d = "JObj [(''batteryChargeLevelPercentage'', JInt 80)]"
  let ?s' = "\<lparr>username = ''user'', password = ''secret'',
              cache_data = Some [(''getBatteryData'',
                \<lparr>data = ?d, timestamp = 63900000000000000\<rparr>)],
              updating = Some False, vin = None, ident = None, name = None\<rparr>"
  have put: "cache_put ?s ''getBatteryData'' ?d 63900000000000000 = Inr ?s'"
    by (simp add: cache_put_def)
  have ttl: "timedelta_seconds 30 = Inr 30000000"
    by (simp add: timedelta_seconds_def)
  have expiry: "datetime_add 63900000000000000 30000000 = Inr 63900000030000000"
    by (simp add: datetime_add_def datetime_max_def)
  have resolve: "get_field_name_value (Some ''batteryChargeLevelPercentage'') ?d = Inr (JInt 80)"
    by (simp add: get_field_name_value_def)
  have fresh:
    "get_cache_data 30 ?s' (Some ''getBatteryData'') (Some ''batteryChargeLevelPercentage'')
       False 63900000029999999 = Inr (JInt 80)"
    using cache_fresh_read_after_put
      [OF put _ ttl expiry, of 63900000029999999 "Some ''batteryChargeLevelPercentage''"]
      resolve
    by simp
  have stale:
    "get_cache_data 30 ?s' (Some ''getBatteryData'') (Some ''batteryChargeLevelPercentage'')
       False 63900000030000000 = Inr JNull"
    using cache_fresh_read_after_put
      [OF put _ ttl expiry, of 63900000030000000 "Some ''batteryChargeLevelPercentage''"]
    by simp
  from put ttl expiry fresh stale show ?thesis by (intro conjI)
qed

text \<open>
  Claim C5 says that \<open>get_latest_data\<close> resolves the field against the entry's data
  whenever an entry exists. It does not when the entry's data is \<^verbatim>\<open>None\<close>: line 51
  returns \<^verbatim>\<open>False\<close>, while resolution on \<^verbatim>\<open>None\<close> gives \<^verbatim>\<open>None\<close>.
\<close>

theorem get_latest_data_null_is_false_not_resolved:
  "get_latest_data
     \<lparr>username = ''user'', password = ''secret'',
      cache_data = Some [(''getBatteryData'', \<lparr>data = JNull, timestamp = 0\<rparr>)],
      updating = Some False, vin = None, ident = None, name = None\<rparr>
     (Some ''getBatteryData'') (Some ''chargingStatus'') = Inr (JBool False) \<and>
   get_field_name_value (Some ''chargingStatus'') JNull = Inr JNull"
  by (simp add: get_latest_data_def get_field_name_value_def)

text \<open>
  Claim C5 as amended: \<open>get_latest_data\<close> takes no clock reading and does not look at the
  entry's timestamp. On an empty cache it returns \<^verbatim>\<open>None\<close>. When an entry exists for the
  query it returns \<^verbatim>\<open>False\<close> if the entry's data is \<^verbatim>\<open>None\<close> and otherwise resolves the
  field against the entry's data, whatever the entry's age.
\<close>

theorem get_latest_data_any_age:
  assumes "cache_data s = Some c"
  shows "(c = [] \<longrightarrow> get_latest_data s q f = Inr JNull) \<and>
         (map_of c qn = Some entry \<longrightarrow>
            get_latest_data s (Some qn) f =
              (if data entry = JNull then Inr (JBool False)
               else get_field_name_value f (data entry)))"
  using assms by (auto simp: get_latest_data_def)

theorem get_latest_data_any_age_witness:
  "get_latest_data
     \<lparr>username = ''user'', password = ''secret'', cache_data = Some [],
      updating = Some False, vin = None, ident = None, name = None\<rparr>
     (Some ''getBatteryData'') (Some ''batteryChargeLevelPercentage'') = Inr JNull \<and>
   get_latest_data
     \<lparr>username = ''user'', password = ''secret'',
      cache_data = Some [(''getBatteryData'',
        \<lparr>data = JObj [(''batteryChargeLevelPercentage'', JInt 80)], timestamp = 0\<rparr>)],
      updating = Some False, vin = None, ident = None, name = None\<rparr>
     (Some ''getBatteryData'') (Some ''batteryChargeLevelPercentage'') = Inr (JInt 80)"
proof -
  let ?s0 = "\<lparr>username = ''user'', password = ''secret'', cache_data = Some [],
      updating = Some False, vin = None, ident = None, name = None\<rparr>"
  let ?entry = "\<lparr>data = JObj [(''batteryChargeLevelPercentage'', JInt 80)], timestamp = 0\<rparr>"
  let ?s1 = "\<lparr>username = ''user'', password = ''secret'',
      cache_data = Some [(''getBatteryData'', ?entry)],
      updating = Some False, vin = None, ident = None, name = None\<rparr>"
  have "get_latest_data ?s0 (Some ''getBatteryData'') (Some ''batteryChargeLevelPercentage'')
          = Inr JNull"
    using get_latest_data_any_age [of ?s0 "[]"] by simp
  moreover
  have "get_latest_data ?s1 (Some ''getBatteryData'') (Some ''batteryChargeLevelPercentage'')
          = Inr (JInt 80)"
    using get_latest_data_any_age [of ?s1 "[(''getBatteryData'', ?entry)]" _ _ "''getBatteryData''" ?entry]
    by (simp add: get_field_name_value_def)
  ultimately show ?thesis by blast
qed

text \<open>
  Claim C9 says that for an entry whose data is \<^verbatim>\<open>None\<close> the read returns the boolean
  \<^verbatim>\<open>False\<close>, a value that callers can tell from the no-entry case and from a resolved
  field. The last part fails: a field that holds the JSON value \<^verbatim>\<open>false\<close> is returned as
  it is by line 71, so an entry \<^verbatim>\<open>{"hasPerformancePackage": false}\<close> read at that field
  gives the same \<^verbatim>\<open>False\<close> as an entry whose data is \<^verbatim>\<open>None\<close>.
\<close>

theorem get_latest_data_false_field_same_as_null:
  "get_latest_data
     \<lparr>username = ''user'', password = ''secret'',
      cache_data = Some [(''getConsumerCarsV2'', \<lparr>data = JNull, timestamp = 10\<rparr>)],
      updating = Some False, vin = None, ident = None, name = None\<rparr>
     (Some ''getConsumerCarsV2'') (Some ''hasPerformancePackage'') = Inr (JBool False) \<and>
   get_latest_data
     \<lparr>username = ''user'', password = ''secret'',
      cache_data = Some [(''getConsumerCarsV2'',
        \<lparr>data = JObj [(''vin'', JStr ''YSMYKEAE7RB000001''),
                      (''hasPerformancePackage'', JBool False)],
         timestamp = 10\<rparr>)],
      updating = Some False, vin = None, ident = None, name = None\<rparr>
     (Some ''getConsumerCarsV2'') (Some ''hasPerformancePackage'') = Inr (JBool False)"
  by (simp add: get_latest_data_def get_field_name_value_def)

text \<open>
  Claim C9 as amended: when the entry of the query exists and its data is \<^verbatim>\<open>None\<close>,
  \<open>get_latest_data\<close> returns the boolean \<^verbatim>\<open>False\<close> for every field path (also for no
  path at all), not \<^verbatim>\<open>None\<close>; that differs from what any read gives where the cache has
  no entry for the query read. It need not differ from a resolved field, which is
  \<^verbatim>\<open>False\<close> too when the field holds \<^verbatim>\<open>false\<close>.
\<close>

theorem get_latest_data_null_entry:
  assumes "cache_data s = Some c" and "map_of c q = Some entry" and "data entry = JNull"
    and "cache_data s0 = Some c0" and "map_of c0 q0 = None"
  shows "get_latest_data s (Some q) f = Inr (JBool False) \<and>
         get_latest_data s (Some q) f \<noteq> Inr JNull \<and>
         get_latest_data s0 (Some q0) f0 \<noteq> get_latest_data s (Some q) f"
proof -
  from assms(2) have "c \<noteq> []" by auto
  with assms(1-3) have null: "get_latest_data s (Some q) f = Inr (JBool False)"
    by (simp add: get_latest_data_def)
  from assms(4,5) have "get_latest_data s0 (Some q0) f0 \<noteq> Inr (JBool False)"
    by (simp add: get_latest_data_def)
  with null show ?thesis by simp
qed

text \<open>
  An entry with data \<^verbatim>\<open>None\<close> reads \<^verbatim>\<open>False\<close>; on an empty cache the same read gives
  \<^verbatim>\<open>None\<close>.
\<close>

theorem get_latest_data_null_entry_witness:
  "get_latest_data
     \<lparr>username = ''user'', password = ''secret'',
      cache_data = Some [(''getOdometerData'', \<lparr>data = JNull, timestamp = 10\<rparr>)],
      updating = Some False, vin = Some (JStr ''YSMYKEAE7RB000001''),
      ident = Some (JStr ''YSMYKEAE''), name = Some (JStr ''Polestar 0001'')\<rparr>
     (Some ''getOdometerData'') (Some ''odometerMeters'') = Inr (JBool False) \<and>
   get_latest_data
     \<lparr>username = ''user'', password = ''secret'',
      cache_data = Some [(''getOdometerData'', \<lparr>data = JNull, timestamp = 10\<rparr>)],
      updating = Some False, vin = Some (JStr ''YSMYKEAE7RB000001''),
      ident = Some (JStr ''YSMYKEAE''), name = Some (JStr ''Polestar 0001'')\<rparr>
     (Some ''getOdometerData'') None = Inr (JBool False) \<and>
   get_latest_data
     \<lparr>username = ''user'', password = ''secret'', cache_data = Some [],
      updating = Some False, vin = Some (JStr ''YSMYKEAE7RB000001''),
      ident = Some (JStr ''YSMYKEAE''), name = Some (JStr ''Polestar 0001'')\<rparr>
     (Some ''getOdometerData'') (Some ''odometerMeters'') = Inr JNull \<and>
   get_latest_data
     \<lparr>username = ''user'', password = ''secret'', cache_data = Some [],
      updating = Some False, vin = Some (JStr ''YSMYKEAE7RB000001''),
      ident = Some (JStr ''YSMYKEAE''), name = Some (JStr ''Polestar 0001'')\<rparr>
     (Some ''getOdometerData'') (Some ''odometerMeters'')
   \<noteq> get_latest_data
     \<lparr>username = ''user'', password = ''secret'',
      cache_data = Some [(''getOdometerData'', \<lparr>data = JNull, timestamp = 10\<rparr>)],
      updating = Some False, vin = Some (JStr ''YSMYKEAE7RB000001''),
      ident = Some (JStr ''YSMYKEAE''), name = Some (JStr ''Polestar 0001'')\<rparr>
     (Some ''getOdometerData'') (Some ''odometerMeters'')"
proof -
  let ?s = "\<lparr>username = ''user'', password = ''secret'',
      cache_data = Some [(''getOdometerData'', \<lparr>data = JNull, timestamp = 10\<rparr>)],
      updating = Some False, vin = Some (JStr ''YSMYKEAE7RB000001''),
      ident = Some (JStr ''YSMYKEAE''), name = Some (JStr ''Polestar 0001'')\<rparr>"
  let ?none = "\<lparr>username = ''user'', password = ''secret'', cache_data = Some [],
      updating = Some False, vin = Some (JStr ''YSMYKEAE7RB000001''),
      ident = Some (JStr ''YSMYKEAE''), name = Some (JStr ''Polestar 0001'')\<rparr>"
  have a: "cache_data ?s = Some [(''getOdometerData'', \<lparr>data = JNull, timestamp = 10\<rparr>)]"
    by simp
  have b: "map_of [(''getOdometerData'', \<lparr>data = JNull, timestamp = 10\<rparr>)] ''getOdometerData''
             = Some \<lparr>data = JNull, timestamp = 10\<rparr>"
    by simp
  have c: "data \<lparr>data = JNull, timestamp = 10\<rparr> = JNull" by simp
  have d: "cache_data ?none = Some []" by simp
  have e: "map_of ([] :: (string \<times> cache_entry) list) ''getOdometerData'' = None" by simp
  note inst = get_latest_data_null_entry [OF a b c d e]
  have 1: "get_latest_data ?s (Some ''getOdometerData'') (Some ''odometerMeters'')
             = Inr (JBool False)"
    using inst [of "Some ''odometerMeters''"] by simp
  have 2: "get_latest_data ?s (Some ''getOdometerData'') None = Inr (JBool False)"
    using inst [of None] by simp
  have 3: "get_latest_data ?none (Some ''getOdometerData'') (Some ''odometerMeters'') = Inr JNull"
    by (simp add: get_latest_data_def)
  have 4: "get_latest_data ?none (Some ''getOdometerData'') (Some ''odometerMeters'')
             \<noteq> get_latest_data ?s (Some ''getOdometerData'') (Some ''odometerMeters'')"
    using inst [of "Some ''odometerMeters''" "Some ''odometerMeters''"] by blast
  from 1 2 3 4 show ?thesis by (intro conjI)
qed

text \<open>
  Claim C6 says that construction creates the cache empty, so that every read on the new
  instance finds no entry rather than failing. \<^verbatim>\<open>__init__\<close> assigns no \<^verbatim>\<open>cache_data\<close>:
  the attribute is missing on the constructed instance, and both reads raise
  AttributeError for every query with a name (\<open>get_cache_data\<close> returns \<^verbatim>\<open>None\<close> for the
  query \<^verbatim>\<open>None\<close> before it looks at the cache), fresh-only or not.
\<close>

theorem constructor_creates_no_cache:
  "cache_data (init_api u p) = None \<and>
   get_cache_data CACHE_TIME (init_api u p) (Some q) f skip_cache now = Inl AttributeError \<and>
   get_latest_data (init_api u p) q' f = Inl AttributeError"
  by (simp add: init_api_def get_cache_data_def get_latest_data_def)

subsection \<open>The field resolver\<close>

text \<open>
  Claim C3 says that a falsy value stops the walk at an intermediate step only, and that
  the value at the final segment is returned as it is even when falsy. In a path with a
  slash the loop applies the test \<^verbatim>\<open>if data.get(key)\<close> to every segment, the last one
  too: at \<^verbatim>\<open>{"a": {"b": 0}}\<close> the value at the final segment of \<^verbatim>\<open>a/b\<close> is \<^verbatim>\<open>0\<close>, and
  the result is \<^verbatim>\<open>None\<close>.
\<close>

theorem resolve_final_falsy_counterexample:
  "subscript (JObj [(''b'', JInt 0)]) ''b'' = Inr (JInt 0) \<and>
   get_field_name_value (Some ''a/b'') (JObj [(''a'', JObj [(''b'', JInt 0)])]) = Inr JNull \<and>
   get_field_name_value (Some ''a/b'') (JObj [(''a'', JObj [(''b'', JInt 0)])]) \<noteq> Inr (JInt 0)"
  by (simp add: get_field_name_value_def)

text \<open>
  Claim C3 as amended: the value is returned as it is, even when falsy, for a path of one
  segment read from a mapping that has the key (line 71). In a path with a slash, a
  falsy value (or a missing key) at any segment the walk reaches, an intermediate one or
  the final one, makes the result \<^verbatim>\<open>None\<close>.
\<close>

theorem resolve_falsy_values:
  "(CHR ''/'' \<notin> set f \<and> map_of kvs f = Some v
      \<longrightarrow> get_field_name_value (Some f) (JObj kvs) = Inr v) \<and>
   (CHR ''/'' \<in> set g \<and> split CHR ''/'' g = pre @ key # post \<and> walk pre doc = Inr cur \<and>
    dict_get cur key = Inr w \<and> \<not> truthy w
      \<longrightarrow> get_field_name_value (Some g) doc = Inr JNull)"
proof (intro conjI impI)
  assume "CHR ''/'' \<notin> set f \<and> map_of kvs f = Some v"
  moreover from this have "kvs \<noteq> []" by auto
  ultimately show "get_field_name_value (Some f) (JObj kvs) = Inr v"
    by (simp add: get_field_name_value_def)
next
  assume a: "CHR ''/'' \<in> set g \<and> split CHR ''/'' g = pre @ key # post \<and> walk pre doc = Inr cur \<and>
    dict_get cur key = Inr w \<and> \<not> truthy w"
  then have "walk (pre @ key # post) doc = Inr JNull"
    by (auto intro: walk_falsy_step)
  with a show "get_field_name_value (Some g) doc = Inr JNull"
    by (simp add: get_field_name_value_def)
qed

text \<open>
  The path \<^verbatim>\<open>b\<close> reads \<^verbatim>\<open>0\<close> from \<^verbatim>\<open>{"b": 0}\<close>; the path \<^verbatim>\<open>a/b\<close> reads \<^verbatim>\<open>None\<close> from
  \<^verbatim>\<open>{"a": {"b": 0}}\<close> (final segment); the path \<^verbatim>\<open>a/b/c\<close> reads \<^verbatim>\<open>None\<close> from
  \<^verbatim>\<open>{"a": ""}\<close> (intermediate segment).
\<close>

theorem resolve_falsy_values_witness:
  "map_of [(''b'', JInt 0)] ''b'' = Some (JInt 0) \<and>
   get_field_name_value (Some ''b'') (JObj [(''b'', JInt 0)]) = Inr (JInt 0) \<and>
   split CHR ''/'' ''a/b'' = [''a''] @ ''b'' # [] \<and>
   walk [''a''] (JObj [(''a'', JObj [(''b'', JInt 0)])]) = Inr (JObj [(''b'', JInt 0)]) \<and>
   dict_get (JObj [(''b'', JInt 0)]) ''b'' = Inr (JInt 0) \<and>
   get_field_name_value (Some ''a/b'') (JObj [(''a'', JObj [(''b'', JInt 0)])]) = Inr JNull \<and>
   split CHR ''/'' ''a/b/c'' = [] @ ''a'' # [''b'', ''c''] \<and>
   dict_get (JObj [(''a'', JStr [])]) ''a'' = Inr (JStr []) \<and>
   get_field_name_value (Some ''a/b/c'') (JObj [(''a'', JStr [])]) = Inr JNull"
proof -
  have 1: "map_of [(''b'', JInt 0)] ''b'' = Some (JInt 0)" by simp
  have 2: "split CHR ''/'' ''a/b'' = [''a''] @ ''b'' # []" by simp
  have 3: "walk [''a''] (JObj [(''a'', JObj [(''b'', JInt 0)])]) = Inr (JObj [(''b'', JInt 0)])"
    by simp
  have 4: "dict_get (JObj [(''b'', JInt 0)]) ''b'' = Inr (JInt 0)" by simp
  have 5: "split CHR ''/'' ''a/b/c'' = [] @ ''a'' # [''b'', ''c'']" by simp
  have 6: "dict_get (JObj [(''a'', JStr [])]) ''a'' = Inr (JStr [])" by simp
  have single: "get_field_name_value (Some ''b'') (JObj [(''b'', JInt 0)]) = Inr (JInt 0)"
    and final: "get_field_name_value (Some ''a/b'') (JObj [(''a'', JObj [(''b'', JInt 0)])]) = Inr JNull"
    using resolve_falsy_values
      [of "''b''" "[(''b'', JInt 0)]" "JInt 0" "''a/b''" "[''a'']" "''b''" "[]"
          "JObj [(''a'', JObj [(''b'', JInt 0)])]" "JObj [(''b'', JInt 0)]" "JInt 0"]
    by simp_all
  have inter: "get_field_name_value (Some ''a/b/c'') (JObj [(''a'', JStr [])]) = Inr JNull"
    using resolve_falsy_values
      [of "''b''" "[(''b'', JInt 0)]" "JInt 0" "''a/b/c''" "[]" "''a''" "[''b'', ''c'']"
          "JObj [(''a'', JStr [])]" "JObj [(''a'', JStr [])]" "JStr []"]
    by simp
  from 1 single 2 3 4 final 5 6 inter show ?thesis by (intro conjI)
qed

subsection \<open>The accessors\<close>

text \<open>
  Claim C4 says that after initialization the reads never raise. Take an instance whose
  \<^verbatim>\<open>cache_data\<close> is an empty dict and run \<open>init\<close> on an account with one car: \<open>init\<close>
  returns, and the cache holds the vehicle entry only. Then \<open>get_latest_data\<close> on a query
  not yet fetched raises KeyError (line 48 indexes the cache, where line 78 uses
  \<^verbatim>\<open>get\<close>), \<open>get_cache_data\<close> on a field the entry does not have raises KeyError (line
  71), and a path that steps through a string raises AttributeError (line 66).
\<close>

theorem accessors_raise_after_init:
  "fst (init \<lparr>username = ''user'', password = ''secret'', cache_data = Some [],
              updating = None, vin = None, ident = None, name = None\<rparr> 100
          \<lparr>script =
             [Inr JNull, Inr (JObj []),
              Inr (JObj [(''data'', JObj [(''getConsumerCarsV2'',
                JList [JObj [(''vin'', JStr ''YSMYKEAE7RB000001'')]])])])],
           calls = []\<rparr>) = Inr () \<and>
   fst (snd (init \<lparr>username = ''user'', password = ''secret'', cache_data = Some [],
              updating = None, vin = None, ident = None, name = None\<rparr> 100
          \<lparr>script =
             [Inr JNull, Inr (JObj []),
              Inr (JObj [(''data'', JObj [(''getConsumerCarsV2'',
                JList [JObj [(''vin'', JStr ''YSMYKEAE7RB000001'')]])])])],
           calls = []\<rparr>))
   = \<lparr>username = ''user'', password = ''secret'',
      cache_data = Some [(''getConsumerCarsV2'',
        \<lparr>data = JObj [(''vin'', JStr ''YSMYKEAE7RB000001'')], timestamp = 100\<rparr>)],
      updating = None, vin = Some (JStr ''YSMYKEAE7RB000001''),
      ident = Some (JStr ''YSMYKEAE''), name = Some (JStr ''Polestar 0001'')\<rparr> \<and>
   get_latest_data
     \<lparr>username = ''user'', password = ''secret'',
      cache_data = Some [(''getConsumerCarsV2'',
        \<lparr>data = JObj [(''vin'', JStr ''YSMYKEAE7RB000001'')], timestamp = 100\<rparr>)],
      updating = None, vin = Some (JStr ''YSMYKEAE7RB000001''),
      ident = Some (JStr ''YSMYKEAE''), name = Some (JStr ''Polestar 0001'')\<rparr>
     (Some ''getOdometerData'') (Some ''odometerMeters'') = Inl KeyError \<and>
   get_cache_data 30
     \<lparr>username = ''user'', password = ''secret'',
      cache_data = Some [(''getConsumerCarsV2'',
        \<lparr>data = JObj [(''vin'', JStr ''YSMYKEAE7RB000001'')], timestamp = 100\<rparr>)],
      updating = None, vin = Some (JStr ''YSMYKEAE7RB000001''),
      ident = Some (JStr ''YSMYKEAE''), name = Some (JStr ''Polestar 0001'')\<rparr>
     (Some ''getConsumerCarsV2'') (Some ''registrationNo'') False 100 = Inl KeyError \<and>
   get_cache_data 30
     \<lparr>username = ''user'', password = ''secret'',
      cache_data = Some [(''getConsumerCarsV2'',
        \<lparr>data = JObj [(''vin'', JStr ''YSMYKEAE7RB000001'')], timestamp = 100\<rparr>)],
      updating = None, vin = Some (JStr ''YSMYKEAE7RB000001''),
      ident = Some (JStr ''YSMYKEAE''), name = Some (JStr ''Polestar 0001'')\<rparr>
     (Some ''getConsumerCarsV2'') (Some ''vin/country'') False 100 = Inl AttributeError"
  by (simp add: init_def external_def get_vehicle_data_def cache_put_def
      get_latest_data_def get_cache_data_def get_field_name_value_def timedelta_seconds_def
      datetime_add_def datetime_max_def)

subsection \<open>The vehicle session\<close>

text \<open>
  Claim C7: when the token call and the vehicle request return and the vehicle list of
  the response is \<^verbatim>\<open>None\<close> or has length zero, \<open>init\<close> raises PolestarApiException and the
  instance is what it was before the call: no cache entry is written and none of
  \<^verbatim>\<open>vin\<close>, \<^verbatim>\<open>id\<close> and \<^verbatim>\<open>name\<close> is assigned.
\<close>

theorem init_no_vehicles:
  assumes "external AuthGetToken e = (Inr tok, e1)"
    and "get_vehicle_data e1 = (Inr result, e2)"
    and "subscript result ''data'' = Inr d"
    and "subscript d ''getConsumerCarsV2'' = Inr cars"
    and "cars = JNull \<or> py_len cars = Inr 0"
  shows "init s now e = (Inl PolestarApiException, s, e2)"
  using assms by (auto simp: init_def)

theorem init_no_vehicles_witness:
  "init \<lparr>username = ''user'', password = ''secret'', cache_data = Some [],
          updating = Some False, vin = None, ident = None, name = None\<rparr> 100
     \<lparr>script =
        [Inr JNull, Inr (JObj []),
         Inr (JObj [(''data'', JObj [(''getConsumerCarsV2'', JList [])])])],
      calls = []\<rparr>
   = (Inl PolestarApiException,
      \<lparr>username = ''user'', password = ''secret'', cache_data = Some [],
       updating = Some False, vin = None, ident = None, name = None\<rparr>,
      \<lparr>script = [],
       calls = [AuthGetToken, AuthHeaders,
                SessionGet \<lparr>query = cars_query, operationName = ''getCars'',
                            variables = ''{}''\<rparr>]\<rparr>) \<and>
   init \<lparr>username = ''user'', password = ''secret'', cache_data = Some [],
          updating = Some False, vin = None, ident = None, name = None\<rparr> 100
     \<lparr>script =
        [Inr JNull, Inr (JObj []),
         Inr (JObj [(''data'', JObj [(''getConsumerCarsV2'', JNull)])])],
      calls = []\<rparr>
   = (Inl PolestarApiException,
      \<lparr>username = ''user'', password = ''secret'', cache_data = Some [],
       updating = Some False, vin = None, ident = None, name = None\<rparr>,
      \<lparr>script = [],
       calls = [AuthGetToken, AuthHeaders,
                SessionGet \<lparr>query = cars_query, operationName = ''getCars'',
                            variables = ''{}''\<rparr>]\<rparr>)"
proof -
  let ?s = "\<lparr>username = ''user'', password = ''secret'', cache_data = Some [],
          updating = Some False, vin = None, ident = None, name = None\<rparr>"
  let ?empty = "JObj [(''data'', JObj [(''getConsumerCarsV2'', JList [])])]"
  let ?null = "JObj [(''data'', JObj [(''getConsumerCarsV2'', JNull)])]"
  let ?ps = "\<lparr>query = cars_query, operationName = ''getCars'', variables = ''{}''\<rparr>"
  let ?e2 = "\<lparr>script = [], calls = [AuthGetToken, AuthHeaders, SessionGet ?ps]\<rparr>"
  have a: "external AuthGetToken \<lparr>script = [Inr JNull, Inr (JObj []), Inr r], calls = []\<rparr>
        = (Inr JNull, \<lparr>script = [Inr (JObj []), Inr r], calls = [AuthGetToken]\<rparr>)" for r
    by (simp add: external_def)
  have b1: "get_vehicle_data \<lparr>script = [Inr (JObj []), Inr ?empty], calls = [AuthGetToken]\<rparr>
        = (Inr ?empty, ?e2)"
    by (simp add: get_vehicle_data_def external_def)
  have b2: "get_vehicle_data \<lparr>script = [Inr (JObj []), Inr ?null], calls = [AuthGetToken]\<rparr>
        = (Inr ?null, ?e2)"
    by (simp add: get_vehicle_data_def external_def)
  have "init ?s 100 \<lparr>script = [Inr JNull, Inr (JObj []), Inr ?empty], calls = []\<rparr>
          = (Inl PolestarApiException, ?s, ?e2)"
    using init_no_vehicles [OF a b1, of "JObj [(''getConsumerCarsV2'', JList [])]" "JList []" ?s 100]
    by simp
  moreover
  have "init ?s 100 \<lparr>script = [Inr JNull, Inr (JObj []), Inr ?null], calls = []\<rparr>
          = (Inl PolestarApiException, ?s, ?e2)"
    using init_no_vehicles [OF a b2, of "JObj [(''getConsumerCarsV2'', JNull)]" JNull ?s 100]
    by simp
  ultimately show ?thesis by blast
qed

text \<open>
  Claim C8: when \<^verbatim>\<open>updating\<close> is already \<^verbatim>\<open>True\<close>, \<open>get_ev_data\<close> returns at once: the
  instance is unchanged, no outcome of the script is consumed and no call is logged.
\<close>

theorem get_ev_data_while_updating:
  "updating s = Some True \<Longrightarrow> get_ev_data s t1 t2 e = (Inr (), s, e)"
  by (simp add: get_ev_data_def)

theorem get_ev_data_while_updating_witness:
  "get_ev_data
     \<lparr>username = ''user'', password = ''secret'',
      cache_data = Some [(''getOdometerData'',
        \<lparr>data = JObj [(''odometerMeters'', JInt 1500)], timestamp = 10\<rparr>)],
      updating = Some True, vin = Some (JStr ''YSMYKEAE7RB000001''),
      ident = Some (JStr ''YSMYKEAE''), name = Some (JStr ''Polestar 0001'')\<rparr> 50 60
     \<lparr>script = [Inr (JObj []), Inr (JObj [(''data'', JObj [])])], calls = []\<rparr>
   = (Inr (),
      \<lparr>username = ''user'', password = ''secret'',
       cache_data = Some [(''getOdometerData'',
         \<lparr>data = JObj [(''odometerMeters'', JInt 1500)], timestamp = 10\<rparr>)],
       updating = Some True, vin = Some (JStr ''YSMYKEAE7RB000001''),
       ident = Some (JStr ''YSMYKEAE''), name = Some (JStr ''Polestar 0001'')\<rparr>,
      \<lparr>script = [Inr (JObj []), Inr (JObj [(''data'', JObj [])])], calls = []\<rparr>)"
  using get_ev_data_while_updating
    [of "\<lparr>username = ''user'', password = ''secret'',
      cache_data = Some [(''getOdometerData'',
        \<lparr>data = JObj [(''odometerMeters'', JInt 1500)], timestamp = 10\<rparr>)],
      updating = Some True, vin = Some (JStr ''YSMYKEAE7RB000001''),
      ident = Some (JStr ''YSMYKEAE''), name = Some (JStr ''Polestar 0001'')\<rparr>" 50 60
      "\<lparr>script = [Inr (JObj []), Inr (JObj [(''data'', JObj [])])], calls = []\<rparr>"]
  by simp

text \<open>
  Claim C10: \<open>get_ev_data\<close> entered with the flag down sets it and clears it only when
  both refreshes return. When either raises, the flag is still \<^verbatim>\<open>True\<close> afterwards, and
  every later call of \<open>get_ev_data\<close> on that instance returns at once without a request.
\<close>

theorem get_ev_data_flag_after_error:
  assumes "updating s = Some False" and "get_ev_data s t1 t2 e = (r, s', e')"
  shows "case r of
           Inl err \<Rightarrow> updating s' = Some True \<and>
                      (\<forall>t3 t4 e''. get_ev_data s' t3 t4 e'' = (Inr (), s', e''))
         | Inr u \<Rightarrow> updating s' = Some False"
proof (cases r)
  case (Inl err)
  obtain r1 s1 e1 where odo: "getOdometerData (s\<lparr>updating := Some True\<rparr>) t1 e = (r1, s1, e1)"
    by (cases "getOdometerData (s\<lparr>updating := Some True\<rparr>) t1 e") auto
  then have u1: "updating s1 = Some True"
    by (auto dest: getOdometerData_updating)
  obtain r2 s2 e2 where bat: "getBatteryData s1 t2 e1 = (r2, s2, e2)"
    by (cases "getBatteryData s1 t2 e1") auto
  then have u2: "updating s2 = Some True"
    using u1 by (auto dest: getBatteryData_updating)
  from assms Inl odo bat have "s' = s1 \<or> s' = s2"
    by (auto simp: get_ev_data_def split: sum.splits)
  with u1 u2 have "updating s' = Some True" by auto
  with Inl show ?thesis by (simp add: get_ev_data_def)
next
  case (Inr u)
  with assms have "updating s' = Some False"
    by (auto simp: get_ev_data_def split: prod.splits sum.splits)
  with Inr show ?thesis by simp
qed

text \<open>
  The odometer refresh returns and writes its entry; the battery response carries an
  error other than the authentication one and no \<^verbatim>\<open>data\<close>, so line 102 raises KeyError.
\<close>

theorem get_ev_data_flag_after_error_witness:
  "updating
     \<lparr>username = ''user'', password = ''secret'', cache_data = Some [],
      updating = Some False, vin = Some (JStr ''YSMYKEAE7RB000001''),
      ident = Some (JStr ''YSMYKEAE''), name = Some (JStr ''Polestar 0001'')\<rparr> = Some False \<and>
   fst (get_ev_data
     \<lparr>username = ''user'', password = ''secret'', cache_data = Some [],
      updating = Some False, vin = Some (JStr ''YSMYKEAE7RB000001''),
      ident = Some (JStr ''YSMYKEAE''), name = Some (JStr ''Polestar 0001'')\<rparr> 10 20
     \<lparr>script =
        [Inr (JObj []),
         Inr (JObj [(''data'', JObj [(''getOdometerData'', JObj [(''odometerMeters'', JInt 1500)])])]),
         Inr (JObj []),
         Inr (JObj [(''errors'', JList [JObj [(''message'', JStr ''Internal server error'')]])])],
      calls = []\<rparr>) = Inl KeyError \<and>
   fst (snd (get_ev_data
     \<lparr>username = ''user'', password = ''secret'', cache_data = Some [],
      updating = Some False, vin = Some (JStr ''YSMYKEAE7RB000001''),
      ident = Some (JStr ''YSMYKEAE''), name = Some (JStr ''Polestar 0001'')\<rparr> 10 20
     \<lparr>script =
        [Inr (JObj []),
         Inr (JObj [(''data'', JObj [(''getOdometerData'', JObj [(''odometerMeters'', JInt 1500)])])]),
         Inr (JObj []),
         Inr (JObj [(''errors'', JList [JObj [(''message'', JStr ''Internal server error'')]])])],
      calls = []\<rparr>))
   = \<lparr>username = ''user'', password = ''secret'',
      cache_data = Some [(''getOdometerData'',
        \<lparr>data = JObj [(''odometerMeters'', JInt 1500)], timestamp = 10\<rparr>)],
      updating = Some True, vin = Some (JStr ''YSMYKEAE7RB000001''),
      ident = Some (JStr ''YSMYKEAE''), name = Some (JStr ''Polestar 0001'')\<rparr> \<and>
   get_ev_data
     \<lparr>username = ''user'', password = ''secret'',
      cache_data = Some [(''getOdometerData'',
        \<lparr>data = JObj [(''odometerMeters'', JInt 1500)], timestamp = 10\<rparr>)],
      updating = Some True, vin = Some (JStr ''YSMYKEAE7RB000001''),
      ident = Some (JStr ''YSMYKEAE''), name = Some (JStr ''Polestar 0001'')\<rparr> 30 40
     \<lparr>script = [Inr (JObj []), Inr (JObj [(''data'', JObj [])])], calls = []\<rparr>
   = (Inr (),
      \<lparr>username = ''user'', password = ''secret'',
       cache_data = Some [(''getOdometerData'',
         \<lparr>data = JObj [(''odometerMeters'', JInt 1500)], timestamp = 10\<rparr>)],
       updating = Some True, vin = Some (JStr ''YSMYKEAE7RB000001''),
       ident = Some (JStr ''YSMYKEAE''), name = Some (JStr ''Polestar 0001'')\<rparr>,
      \<lparr>script = [Inr (JObj []), Inr (JObj [(''data'', JObj [])])], calls = []\<rparr>)"
proof -
  let ?s = "\<lparr>username = ''user'', password = ''secret'', cache_data = Some [],
      updating = Some False, vin = Some (JStr ''YSMYKEAE7RB000001''),
      ident = Some (JStr ''YSMYKEAE''), name = Some (JStr ''Polestar 0001'')\<rparr>"
  let ?e = "\<lparr>script =
        [Inr (JObj []),
         Inr (JObj [(''data'', JObj [(''getOdometerData'', JObj [(''odometerMeters'', JInt 1500)])])]),
         Inr (JObj []),
         Inr (JObj [(''errors'', JList [JObj [(''message'', JStr ''Internal server error'')]])])],
      calls = []\<rparr>"
  let ?s' = "\<lparr>username = ''user'', password = ''secret'',
      cache_data = Some [(''getOdometerData'',
        \<lparr>data = JObj [(''odometerMeters'', JInt 1500)], timestamp = 10\<rparr>)],
      updating = Some True, vin = Some (JStr ''YSMYKEAE7RB000001''),
      ident = Some (JStr ''YSMYKEAE''), name = Some (JStr ''Polestar 0001'')\<rparr>"
  have flag: "updating ?s = Some False" by simp
  have r1: "fst (get_ev_data ?s 10 20 ?e) = Inl KeyError"
    by (simp add: get_ev_data_def getOdometerData_def getBatteryData_def get_odo_data_def
        get_battery_data_def vin_variables_def external_def first_error_message_def
        cache_put_def)
  have r2: "fst (snd (get_ev_data ?s 10 20 ?e)) = ?s'"
    by (simp add: get_ev_data_def getOdometerData_def getBatteryData_def get_odo_data_def
        get_battery_data_def vin_variables_def external_def first_error_message_def
        cache_put_def)
  have run: "get_ev_data ?s 10 20 ?e = (Inl KeyError, ?s', snd (snd (get_ev_data ?s 10 20 ?e)))"
    by (simp add: prod_eq_iff r1 r2)
  from get_ev_data_flag_after_error [OF flag run]
  have r3: "get_ev_data ?s' 30 40 \<lparr>script = [Inr (JObj []), Inr (JObj [(''data'', JObj [])])], calls = []\<rparr>
          = (Inr (), ?s', \<lparr>script = [Inr (JObj []), Inr (JObj [(''data'', JObj [])])], calls = []\<rparr>)"
    by simp
  from flag r1 r2 r3 show ?thesis by (intro conjI)
qed

end
